theory Spec2Isabelle
  imports Main
begin

section \<open>Values, prop sets and virtual nodes\<close>

text \<open>
  Prop values are JavaScript values. Only what strict inequality (\<open>!==\<close>) can tell apart
  matters to the renderer: primitives compare by value, objects and functions by
  identity (\<open>Ref\<close>). Numbers are modelled as integers, so \<open>NaN\<close> is outside the model.
\<close>

datatype val = Undefined | Null | Str string | Num int | Bool bool | Ref nat

text \<open>
  A prop set is the list of its own enumerable keys with their values, in the order in
  which \<open>for (const key in props)\<close> visits them.
\<close>

type_synonym props = "(string \<times> val) list"

text \<open>
  The type of a virtual node: the \<open>Text\<close> marker, a tag name, or a component definition
  (an object, named here by its index in the table of component definitions).
\<close>

datatype vtype = Text | Tag string | Comp nat

text \<open>
  The module \<open>./vnode\<close> is not part of the sources at hand. Modelled from the spec: a
  virtual node has a type, an optional prop set, children that are a literal text payload
  when the type is \<open>Text\<close> and an ordered sequence of nodes or raw strings otherwise, a
  reference to its host node (\<open>el\<close>, absent until mounted) and, for a component node, a
  reference to its instance (an index into the store of instances). A render pass builds
  its nodes fresh, so a node is a tree value; the in-place updates of the code (\<open>n2.el =
  ...\<close>, \<open>children[i] = ...\<close>) are modelled by returning the updated node.
\<close>

datatype 'n vnode =
    VText string "'n option"
  | VElem string "props option" "'n vchild list" "'n option"
  | VComp nat "props option" "'n vchild list" "'n option" "nat option"
and 'n vchild = Raw string | Node "'n vnode"

text \<open>The value of \<open>vnode.children\<close>: a string, an array, or nothing at all.\<close>

datatype 'n children = KUndefined | KString string | KArray "'n vchild list"

fun vtype_of :: "'n vnode \<Rightarrow> vtype" where
  "vtype_of (VText s e) = Text"
| "vtype_of (VElem t ps cs e) = Tag t"
| "vtype_of (VComp c ps cs e i) = Comp c"

fun props_of :: "'n vnode \<Rightarrow> props option" where
  "props_of (VText s e) = None"
| "props_of (VElem t ps cs e) = ps"
| "props_of (VComp c ps cs e i) = ps"

fun children_of :: "'n vnode \<Rightarrow> 'n children" where
  "children_of (VText s e) = KString s"
| "children_of (VElem t ps cs e) = KArray cs"
| "children_of (VComp c ps cs e i) = KArray cs"

fun el_of :: "'n vnode \<Rightarrow> 'n option" where
  "el_of (VText s e) = e"
| "el_of (VElem t ps cs e) = e"
| "el_of (VComp c ps cs e i) = e"

fun component_of :: "'n vnode \<Rightarrow> nat option" where
  "component_of (VText s e) = None"
| "component_of (VElem t ps cs e) = None"
| "component_of (VComp c ps cs e i) = i"

fun set_el :: "'n option \<Rightarrow> 'n vnode \<Rightarrow> 'n vnode" where
  "set_el e' (VText s e) = VText s e'"
| "set_el e' (VElem t ps cs e) = VElem t ps cs e'"
| "set_el e' (VComp c ps cs e i) = VComp c ps cs e' i"

text \<open>
  The loops over a child array write the normalized children back into the array the node
  holds, so the node sees them. A string payload is never written to.
\<close>

fun set_children :: "'n vchild list \<Rightarrow> 'n vnode \<Rightarrow> 'n vnode" where
  "set_children cs' (VText s e) = VText s e"
| "set_children cs' (VElem t ps cs e) = VElem t ps cs' e"
| "set_children cs' (VComp c ps cs e i) = VComp c ps cs' e i"

text \<open>
  \<open>vnode.component = instance\<close>. Nodes built by \<open>createVNode\<close> all carry the field; in the
  model only a component node has room for it, and the code assigns it to no other node
  without failing right after.
\<close>

fun set_component :: "nat option \<Rightarrow> 'n vnode \<Rightarrow> 'n vnode" where
  "set_component i' (VComp c ps cs e i) = VComp c ps cs e i'"
| "set_component i' v = v"

text \<open>
  Modelled from the spec: \<open>normalizeVNode\<close> (module \<open>./vnode\<close>, not part of the sources at
  hand). A raw string becomes a \<open>Text\<close> node that is not mounted yet; a child that is a
  node already is taken as it is.
\<close>

fun normalizeVNode :: "'n vchild \<Rightarrow> 'n vnode" where
  "normalizeVNode (Node v) = v"
| "normalizeVNode (Raw s) = VText s None"

text \<open>
  Modelled from the spec: \<open>createVNode\<close> (module \<open>./vnode\<close>), used by the root \<open>render\<close> on
  a component definition. The node starts with no host node and no instance.
\<close>

definition createVNode :: "nat \<Rightarrow> props option \<Rightarrow> 'n vchild list \<Rightarrow> 'n vnode" where
  "createVNode c ps cs = VComp c ps cs None None"

section \<open>What the old node of a patch can be\<close>

text \<open>
  \<open>patch(n1, n2, container)\<close> receives as \<open>n1\<close> whatever \<open>c1[i]\<close> holds: \<open>null\<close> on a first
  mount, \<open>undefined\<close> beyond the end of the old child array, a string when the old children
  are a string or hold a raw string, and otherwise a node.
\<close>

datatype 'n old = ONull | OUndefined | OString string | OVNode "'n vnode"

datatype error = TypeError | OutOfFuel | NoInstance

text \<open>\<open>n1 == null\<close> holds of \<open>null\<close> and \<open>undefined\<close>; \<open>n1 === null\<close> of \<open>null\<close> only.\<close>

fun loosely_null :: "'n old \<Rightarrow> bool" where
  "loosely_null ONull = True"
| "loosely_null OUndefined = True"
| "loosely_null (OString s) = False"
| "loosely_null (OVNode v) = False"

fun strictly_null :: "'n old \<Rightarrow> bool" where
  "strictly_null ONull = True"
| "strictly_null OUndefined = False"
| "strictly_null (OString s) = False"
| "strictly_null (OVNode v) = False"

text \<open>
  Reading a property of \<open>null\<close> or \<open>undefined\<close> throws a \<open>TypeError\<close>; a string has none of
  the properties of a node, so reading one yields \<open>undefined\<close>.
\<close>

fun old_el :: "'n old \<Rightarrow> error + 'n option" where
  "old_el ONull = Inl TypeError"
| "old_el OUndefined = Inl TypeError"
| "old_el (OString s) = Inr None"
| "old_el (OVNode v) = Inr (el_of v)"

fun old_children :: "'n old \<Rightarrow> error + 'n children" where
  "old_children ONull = Inl TypeError"
| "old_children OUndefined = Inl TypeError"
| "old_children (OString s) = Inr KUndefined"
| "old_children (OVNode v) = Inr (children_of v)"

fun old_component :: "'n old \<Rightarrow> error + nat option" where
  "old_component ONull = Inl TypeError"
| "old_component OUndefined = Inl TypeError"
| "old_component (OString s) = Inr None"
| "old_component (OVNode v) = Inr (component_of v)"

text \<open>
  \<open>n1.props?.[key]\<close>, read only after \<open>n1.el\<close> has been read without failure: the value
  stored under the key, and \<open>undefined\<close> when the old node has no prop set or no such key.
\<close>

fun old_prop :: "'n old \<Rightarrow> string \<Rightarrow> val" where
  "old_prop (OVNode v) key =
     (case props_of v of
        None \<Rightarrow> Undefined
      | Some ps \<Rightarrow> (case map_of ps key of None \<Rightarrow> Undefined | Some x \<Rightarrow> x))"
| "old_prop n1 key = Undefined"

text \<open>
  \<open>c1[i]\<close>: indexing \<open>undefined\<close> throws, a string yields its \<open>i\<close>-th character as a string,
  an array its \<open>i\<close>-th entry, and either yields \<open>undefined\<close> out of range.
\<close>

fun old_child_at :: "'n vchild list \<Rightarrow> nat \<Rightarrow> 'n old" where
  "old_child_at cs i =
     (if i < length cs
      then (case cs ! i of Raw t \<Rightarrow> OString t | Node v \<Rightarrow> OVNode v)
      else OUndefined)"

fun child_at :: "'n children \<Rightarrow> nat \<Rightarrow> error + 'n old" where
  "child_at KUndefined i = Inl TypeError"
| "child_at (KString s) i = Inr (if i < length s then OString [s ! i] else OUndefined)"
| "child_at (KArray cs) i = Inr (old_child_at cs i)"

text \<open>\<open>n2.children !== n1.children\<close> for a \<open>Text\<close> node \<open>n2\<close> with payload \<open>s\<close>.\<close>

fun payload_differs :: "string \<Rightarrow> 'n old \<Rightarrow> bool" where
  "payload_differs s (OVNode (VText s1 e)) = (s \<noteq> s1)"
| "payload_differs s n1 = True"

section \<open>The host adapter and the renderer's state\<close>

text \<open>
  \<open>RendererOptions\<close>: the operations of the host, over a host state \<open>'h\<close> and host nodes
  \<open>'n\<close>. A node argument is an option because the code passes on whatever \<open>el\<close> holds
  (\<open>n1.el!\<close> asserts, it does not check). \<open>createElement\<close> takes the node's type as the
  code hands it over (\<open>type as string\<close> casts, it does not check). \<open>insert\<close> is never given
  its optional anchor, which is left out. \<open>parentNode\<close> is called by the later renderer only;
  \<open>setElementText\<close> by neither. The operations are taken not to throw. The interface has no
  operation that removes a node.
\<close>

record ('n, 'h) RendererOptions =
  patchProp :: "'n option \<Rightarrow> string \<Rightarrow> val \<Rightarrow> 'h \<Rightarrow> 'h"
  createElement :: "vtype \<Rightarrow> 'h \<Rightarrow> 'n \<times> 'h"
  createText :: "string \<Rightarrow> 'h \<Rightarrow> 'n \<times> 'h"
  setText :: "'n option \<Rightarrow> string \<Rightarrow> 'h \<Rightarrow> 'h"
  setElementText :: "'n option \<Rightarrow> string \<Rightarrow> 'h \<Rightarrow> 'h"
  insert_op :: "'n option \<Rightarrow> 'n option \<Rightarrow> 'h \<Rightarrow> 'h"
  parentNode :: "'n option \<Rightarrow> 'h \<Rightarrow> 'n option"

text \<open>The calls the renderer makes on the host, in the order it makes them.\<close>

datatype 'n call =
    PatchProp "'n option" string val
  | CreateElement vtype
  | CreateText string
  | SetText "'n option" string
  | Insert "'n option" "'n option"
  | ParentNode "'n option"

text \<open>
  Modelled from the spec: the component definition and the component instance (module
  \<open>./component\<close>, not part of the sources at hand). A definition has an optional \<open>setup\<close>
  that, given the props, returns the render function; a render function is a closure,
  here a function of the application state \<open>'e\<close> it reads and of the instance's current
  props. The instance records what \<open>componentUpdateFn\<close> closes over as well: the container
  of the first mount.
\<close>

record ('n, 'e) Component =
  setup_fn :: "(props \<Rightarrow> 'e \<Rightarrow> props \<Rightarrow> 'n vchild) option"

record ('n, 'e) ComponentInternalInstance =
  i_vnode :: "'n vnode"
  i_next :: "'n vnode option"
  i_props :: props
  i_render :: "('e \<Rightarrow> props \<Rightarrow> 'n vchild) option"
  i_subTree :: "'n vnode option"
  i_isMounted :: bool
  i_container :: "'n option"

record ('n, 'h, 'e) rstate =
  host :: 'h
  instances :: "('n, 'e) ComponentInternalInstance list"
  components :: "nat \<Rightarrow> ('n, 'e) Component"
  env :: 'e

type_synonym ('a, 'n, 'h, 'e) result = "'n call list \<times> (error + 'a) \<times> ('n, 'h, 'e) rstate"

text \<open>
  Sequencing: the calls of both parts in order; an exception of the first part ends the
  whole with the calls made so far.
\<close>

definition and_then ::
  "('a, 'n, 'h, 'e) result \<Rightarrow> ('a \<Rightarrow> ('n, 'h, 'e) rstate \<Rightarrow> ('b, 'n, 'h, 'e) result)
     \<Rightarrow> ('b, 'n, 'h, 'e) result" where
  "and_then r k =
     (case r of
        (cs, Inl e, st) \<Rightarrow> (cs, Inl e, st)
      | (cs, Inr a, st) \<Rightarrow> (case k a st of (cs', r', st') \<Rightarrow> (cs @ cs', r', st')))"

definition return :: "'a \<Rightarrow> ('n, 'h, 'e) rstate \<Rightarrow> ('a, 'n, 'h, 'e) result" where
  "return a st = ([], Inr a, st)"

definition throw :: "error \<Rightarrow> ('n, 'h, 'e) rstate \<Rightarrow> ('a, 'n, 'h, 'e) result" where
  "throw e st = ([], Inl e, st)"

definition hostPatchProp ::
  "('n, 'h) RendererOptions \<Rightarrow> 'n option \<Rightarrow> string \<Rightarrow> val \<Rightarrow> ('n, 'h, 'e) rstate
     \<Rightarrow> (unit, 'n, 'h, 'e) result" where
  "hostPatchProp opts el key v st =
     ([PatchProp el key v], Inr (), st\<lparr>host := patchProp opts el key v (host st)\<rparr>)"

definition hostCreateElement ::
  "('n, 'h) RendererOptions \<Rightarrow> vtype \<Rightarrow> ('n, 'h, 'e) rstate \<Rightarrow> ('n, 'n, 'h, 'e) result" where
  "hostCreateElement opts ty st =
     ([CreateElement ty], Inr (fst (createElement opts ty (host st))),
      st\<lparr>host := snd (createElement opts ty (host st))\<rparr>)"

definition hostCreateText ::
  "('n, 'h) RendererOptions \<Rightarrow> string \<Rightarrow> ('n, 'h, 'e) rstate \<Rightarrow> ('n, 'n, 'h, 'e) result" where
  "hostCreateText opts s st =
     ([CreateText s], Inr (fst (createText opts s (host st))),
      st\<lparr>host := snd (createText opts s (host st))\<rparr>)"

definition hostSetText ::
  "('n, 'h) RendererOptions \<Rightarrow> 'n option \<Rightarrow> string \<Rightarrow> ('n, 'h, 'e) rstate
     \<Rightarrow> (unit, 'n, 'h, 'e) result" where
  "hostSetText opts el s st =
     ([SetText el s], Inr (), st\<lparr>host := setText opts el s (host st)\<rparr>)"

definition hostInsert ::
  "('n, 'h) RendererOptions \<Rightarrow> 'n option \<Rightarrow> 'n option \<Rightarrow> ('n, 'h, 'e) rstate
     \<Rightarrow> (unit, 'n, 'h, 'e) result" where
  "hostInsert opts child parent st =
     ([Insert child parent], Inr (), st\<lparr>host := insert_op opts child parent (host st)\<rparr>)"

definition hostParentNode ::
  "('n, 'h) RendererOptions \<Rightarrow> 'n option \<Rightarrow> ('n, 'h, 'e) rstate
     \<Rightarrow> ('n option, 'n, 'h, 'e) result" where
  "hostParentNode opts el st = ([ParentNode el], Inr (parentNode opts el (host st)), st)"

section \<open>The parts both renderers share\<close>

text \<open>
  \<open>processText\<close> is the same text in both renderers. \<open>patch\<close> calls it for a node of type
  \<open>Text\<close> only, and those are the \<open>VText\<close> nodes.
\<close>

fun processText ::
  "('n, 'h) RendererOptions \<Rightarrow> 'n old \<Rightarrow> 'n vnode \<Rightarrow> 'n option \<Rightarrow> ('n, 'h, 'e) rstate
     \<Rightarrow> ('n vnode, 'n, 'h, 'e) result" where
  "processText opts n1 (VText s e) container st =
     (if loosely_null n1
      then and_then (hostCreateText opts s st) (\<lambda>node st1.
           and_then (hostInsert opts (Some node) container st1) (\<lambda>u st2.
           return (VText s (Some node)) st2))
      else (case old_el n1 of
              Inl err \<Rightarrow> throw err st
            | Inr el \<Rightarrow>
                if payload_differs s n1
                then and_then (hostSetText opts el s st) (\<lambda>u st1. return (VText s el) st1)
                else return (VText s el) st))"

text \<open>
  The prop loop of \<open>mountElement\<close>: \<open>if (props) for (const key in props)
  hostPatchProp(el, key, props[key])\<close>.
\<close>

fun mount_props ::
  "('n, 'h) RendererOptions \<Rightarrow> 'n option \<Rightarrow> props \<Rightarrow> ('n, 'h, 'e) rstate
     \<Rightarrow> (unit, 'n, 'h, 'e) result" where
  "mount_props opts el [] st = return () st"
| "mount_props opts el ((key, v) # ps) st =
     and_then (hostPatchProp opts el key v st) (\<lambda>u st1. mount_props opts el ps st1)"

text \<open>
  The prop loop of \<open>patchElement\<close>. Its test \<open>props[key] !== n1.props?.[key] ?? {}\<close> parses
  as \<open>(props[key] !== n1.props?.[key]) ?? {}\<close>: the comparison binds tighter than \<open>??\<close>, and
  its result is a boolean, never nullish, so \<open>{}\<close> is never used.
\<close>

fun patch_props ::
  "('n, 'h) RendererOptions \<Rightarrow> 'n option \<Rightarrow> 'n old \<Rightarrow> props \<Rightarrow> ('n, 'h, 'e) rstate
     \<Rightarrow> (unit, 'n, 'h, 'e) result" where
  "patch_props opts el n1 [] st = return () st"
| "patch_props opts el n1 ((key, v) # ps) st =
     (if v \<noteq> old_prop n1 key
      then and_then (hostPatchProp opts el key v st) (\<lambda>u st1. patch_props opts el n1 ps st1)
      else patch_props opts el n1 ps st)"

text \<open>
  The child array of a node as the loops of \<open>mountChildren\<close> and \<open>patchChildren\<close> see it
  (\<open>vnode.children as VNode[]\<close>). A string payload has a length too: the loop does nothing
  on the empty string, and on any other its first step, the write \<open>children[0] = ...\<close> to a
  string, throws (module code is strict) before anything else has happened.
\<close>

fun array_children :: "'n vnode \<Rightarrow> error + 'n vchild list" where
  "array_children (VText s e) = (if s = [] then Inr [] else Inl TypeError)"
| "array_children (VElem t ps cs e) = Inr cs"
| "array_children (VComp c ps cs e i) = Inr cs"

text \<open>The measures by which the renderers' recursion over a node tree ends.\<close>

fun vweight :: "'n vnode \<Rightarrow> nat" and cweight :: "'n vchild \<Rightarrow> nat" where
  "vweight (VText s e) = 1"
| "vweight (VElem t ps cs e) = Suc (sum_list (map cweight cs))"
| "vweight (VComp c ps cs e i) = Suc (sum_list (map cweight cs))"
| "cweight (Raw s) = 1"
| "cweight (Node v) = vweight v"

definition lweight :: "'n vchild list \<Rightarrow> nat" where
  "lweight cs = sum_list (map cweight cs)"

lemma vweight_pos: "0 < vweight v"
  by (cases v) simp_all

lemma cweight_pos: "0 < cweight c"
  by (cases c) (simp_all add: vweight_pos)

lemma vweight_normalizeVNode: "vweight (normalizeVNode c) = cweight c"
  by (cases c) simp_all

lemma lweight_Cons: "lweight (c # cs) = cweight c + lweight cs"
  by (simp add: lweight_def)

lemma lweight_array_children: "array_children v = Inr cs \<Longrightarrow> lweight cs < vweight v"
  by (cases v) (auto simp: lweight_def split: if_splits)

lemma and_then_cong [fundef_cong]:
  assumes "r = r'"
    and "\<And>cs a st. r' = (cs, Inr a, st) \<Longrightarrow> k a st = k' a st"
  shows "and_then r k = and_then r' k'"
  using assms by (auto simp: and_then_def split: prod.splits sum.splits)

section \<open>The earlier renderer\<close>

text \<open>
  \<open>packages/runtime-core/renderer.ts\<close>. Its \<open>patch\<close> sends a \<open>Text\<close> node to \<open>processText\<close> and
  every other node to \<open>processElement\<close>. Each function returns the host calls it made, its
  value or the exception that ended it, and the state it leaves; the value of a function
  that returns nothing in the code is the node (or child array) it has updated in place.
  \<open>early_patchChildren\<close> is the \<open>for\<close> loop of \<open>patchChildren\<close>: \<open>i\<close> is the loop index, \<open>c1\<close> the
  old children and the list the new children from index \<open>i\<close> on; the two reads
  \<open>c1 = n1.children\<close> and \<open>c2 = n2.children\<close> that precede the loop are made by the caller.
  \<open>early_mountChildren\<close> is the loop of \<open>mountChildren\<close> in the same way.
\<close>

function
  early_patch ::
    "('n, 'h) RendererOptions \<Rightarrow> 'n old \<Rightarrow> 'n vnode \<Rightarrow> 'n option \<Rightarrow> ('n, 'h, 'e) rstate
       \<Rightarrow> ('n vnode, 'n, 'h, 'e) result"
and early_processElement ::
    "('n, 'h) RendererOptions \<Rightarrow> 'n old \<Rightarrow> 'n vnode \<Rightarrow> 'n option \<Rightarrow> ('n, 'h, 'e) rstate
       \<Rightarrow> ('n vnode, 'n, 'h, 'e) result"
and early_mountElement ::
    "('n, 'h) RendererOptions \<Rightarrow> 'n vnode \<Rightarrow> 'n option \<Rightarrow> ('n, 'h, 'e) rstate
       \<Rightarrow> ('n vnode, 'n, 'h, 'e) result"
and early_mountChildren ::
    "('n, 'h) RendererOptions \<Rightarrow> 'n vchild list \<Rightarrow> 'n option \<Rightarrow> ('n, 'h, 'e) rstate
       \<Rightarrow> ('n vchild list, 'n, 'h, 'e) result"
and early_patchElement ::
    "('n, 'h) RendererOptions \<Rightarrow> 'n old \<Rightarrow> 'n vnode \<Rightarrow> ('n, 'h, 'e) rstate
       \<Rightarrow> ('n vnode, 'n, 'h, 'e) result"
and early_patchChildren ::
    "('n, 'h) RendererOptions \<Rightarrow> nat \<Rightarrow> 'n children \<Rightarrow> 'n vchild list \<Rightarrow> 'n option
       \<Rightarrow> ('n, 'h, 'e) rstate \<Rightarrow> ('n vchild list, 'n, 'h, 'e) result"
where
  "early_patch opts n1 n2 container st =
     (if vtype_of n2 = Text then processText opts n1 n2 container st
      else early_processElement opts n1 n2 container st)"
| "early_processElement opts n1 n2 container st =
     (if strictly_null n1 then early_mountElement opts n2 container st
      else early_patchElement opts n1 n2 st)"
| "early_mountElement opts vnode container st =
     and_then (hostCreateElement opts (vtype_of vnode) st) (\<lambda>el st1.
     case array_children vnode of
       Inl err \<Rightarrow> throw err st1
     | Inr children \<Rightarrow>
     and_then (early_mountChildren opts children (Some el) st1) (\<lambda>cs st2.
     and_then (case props_of vnode of
                 None \<Rightarrow> return () st2
               | Some ps \<Rightarrow> mount_props opts (Some el) ps st2) (\<lambda>u st3.
     and_then (hostInsert opts (Some el) container st3) (\<lambda>u st4.
     return (set_children cs (set_el (Some el) vnode)) st4))))"
| "early_mountChildren opts [] container st = return [] st"
| "early_mountChildren opts (c # cs) container st =
     and_then (early_patch opts ONull (normalizeVNode c) container st) (\<lambda>child st1.
     and_then (early_mountChildren opts cs container st1) (\<lambda>rest st2.
     return (Node child # rest) st2))"
| "early_patchElement opts n1 n2 st =
     (case old_el n1 of
        Inl err \<Rightarrow> throw err st
      | Inr el \<Rightarrow>
     (case old_children n1 of
        Inl err \<Rightarrow> throw err st
      | Inr c1 \<Rightarrow>
     (case array_children n2 of
        Inl err \<Rightarrow> throw err st
      | Inr c2 \<Rightarrow>
     and_then (early_patchChildren opts 0 c1 c2 el st) (\<lambda>cs st1.
     and_then (case props_of n2 of
                 None \<Rightarrow> return () st1
               | Some ps \<Rightarrow> patch_props opts el n1 ps st1) (\<lambda>u st2.
     return (set_children cs (set_el el n2)) st2)))))"
| "early_patchChildren opts i c1 [] container st = return [] st"
| "early_patchChildren opts i c1 (c # cs) container st =
     (case child_at c1 i of
        Inl err \<Rightarrow> throw err st
      | Inr n1 \<Rightarrow>
     and_then (early_patch opts n1 (normalizeVNode c) container st) (\<lambda>child st1.
     and_then (early_patchChildren opts (Suc i) c1 cs container st1) (\<lambda>rest st2.
     return (Node child # rest) st2)))"
  by pat_completeness auto
termination
proof (relation "inv_image (less_than <*lex*> less_than)
    (case_sum
      (case_sum (\<lambda>(opts, n1, n2, container, st). (vweight n2, 4::nat))
        (case_sum (\<lambda>(opts, n1, n2, container, st). (vweight n2, 3))
                  (\<lambda>(opts, v, container, st). (vweight v, 2))))
      (case_sum (\<lambda>(opts, cs, container, st). (lweight cs, 5))
        (case_sum (\<lambda>(opts, n1, n2, st). (vweight n2, 2))
                  (\<lambda>(opts, i, c1, cs, container, st). (lweight cs, 5)))))", goal_cases)
  case 1
  show ?case by auto
qed (auto simp: lweight_Cons vweight_normalizeVNode cweight_pos dest: lweight_array_children)

section \<open>Component instances\<close>

text \<open>
  Modelled from the spec: \<open>createComponentInstance\<close> (module \<open>./component\<close>, not part of the
  sources at hand) allocates a fresh instance for a component node: it tracks the node, has
  no pending node, no render function and no subtree yet, and is not mounted.
\<close>

definition createComponentInstance :: "'n vnode \<Rightarrow> ('n, 'e) ComponentInternalInstance" where
  "createComponentInstance v =
     \<lparr>i_vnode = v, i_next = None, i_props = [], i_render = None, i_subTree = None,
      i_isMounted = False, i_container = None\<rparr>"

text \<open>
  Modelled from the spec: \<open>initProps\<close> and \<open>updateProps\<close> (module \<open>./componentProps\<close>, not
  part of the sources at hand). The first resolves the instance's props from the node's
  prop set; the second merges the new values into the props the instance has, key by key,
  and keeps what the new prop set does not mention.
\<close>

definition initProps ::
  "('n, 'e) ComponentInternalInstance \<Rightarrow> props option \<Rightarrow> ('n, 'e) ComponentInternalInstance" where
  "initProps instance rawProps =
     instance\<lparr>i_props := (case rawProps of None \<Rightarrow> [] | Some ps \<Rightarrow> ps)\<rparr>"

fun assign_prop :: "string \<Rightarrow> val \<Rightarrow> props \<Rightarrow> props" where
  "assign_prop key v [] = [(key, v)]"
| "assign_prop key v ((k, x) # ps) =
     (if k = key then (k, v) # ps else (k, x) # assign_prop key v ps)"

definition updateProps ::
  "('n, 'e) ComponentInternalInstance \<Rightarrow> props option \<Rightarrow> ('n, 'e) ComponentInternalInstance" where
  "updateProps instance rawProps =
     instance\<lparr>i_props :=
       (case rawProps of
          None \<Rightarrow> i_props instance
        | Some ps \<Rightarrow> fold (\<lambda>(key, v). assign_prop key v) ps (i_props instance))\<rparr>"

text \<open>
  The store of instances. A node refers to its instance by index; a reference in the code
  cannot dangle, an index can, and then the model stops with \<open>NoInstance\<close>.
\<close>

definition get_instance ::
  "nat \<Rightarrow> ('n, 'h, 'e) rstate \<Rightarrow> (('n, 'e) ComponentInternalInstance, 'n, 'h, 'e) result" where
  "get_instance i st =
     (if i < length (instances st) then return (instances st ! i) st else throw NoInstance st)"

definition update_instance ::
  "nat \<Rightarrow> (('n, 'e) ComponentInternalInstance \<Rightarrow> ('n, 'e) ComponentInternalInstance)
     \<Rightarrow> ('n, 'h, 'e) rstate \<Rightarrow> ('n, 'h, 'e) rstate" where
  "update_instance i f st = st\<lparr>instances := (instances st)[i := f (instances st ! i)]\<rparr>"

section \<open>The later renderer\<close>

text \<open>
  The renderer with components (\<open>createRenderer\<close> of the second \<open>renderer.ts\<close>). Elements and
  text are handled as before; \<open>patch\<close> sends a node whose type is an object to
  \<open>processComponent\<close>.

  A render function may return any tree, also one that holds the component itself, so a
  mount can go on forever. The model counts the runs of \<open>componentUpdateFn\<close> that reach
  \<open>patch\<close>: \<open>fuel\<close> is how many nested runs are still allowed, and a run that finds none
  left ends with \<open>OutOfFuel\<close>, which stands for "not finished", not for an exception of the
  code. Nothing else uses fuel.

  Modelled from the spec: \<open>ReactiveEffect\<close> (module \<open>../reactivity\<close>, not part of the sources
  at hand). \<open>effect.run()\<close> invokes the wrapped computation and lets its exception through;
  the record of dependencies it keeps has no part in the host calls of a patch and is left
  out. So \<open>instance.update()\<close> is a call of \<open>componentUpdateFn\<close>. The closure
  \<open>componentUpdateFn\<close> holds \<open>instance\<close>, \<open>initialVNode\<close> and \<open>container\<close>: the instance is named
  by its index, the container is kept in \<open>i_container\<close>, and \<open>initialVNode\<close> is the node the
  instance tracks for as long as the instance is not mounted. User code (\<open>setup\<close>, render
  functions) is taken not to throw.
\<close>

function
  patch ::
    "('n, 'h) RendererOptions \<Rightarrow> nat \<Rightarrow> 'n old \<Rightarrow> 'n vnode \<Rightarrow> 'n option \<Rightarrow> ('n, 'h, 'e) rstate
       \<Rightarrow> ('n vnode, 'n, 'h, 'e) result"
and processElement ::
    "('n, 'h) RendererOptions \<Rightarrow> nat \<Rightarrow> 'n old \<Rightarrow> 'n vnode \<Rightarrow> 'n option \<Rightarrow> ('n, 'h, 'e) rstate
       \<Rightarrow> ('n vnode, 'n, 'h, 'e) result"
and mountElement ::
    "('n, 'h) RendererOptions \<Rightarrow> nat \<Rightarrow> 'n vnode \<Rightarrow> 'n option \<Rightarrow> ('n, 'h, 'e) rstate
       \<Rightarrow> ('n vnode, 'n, 'h, 'e) result"
and mountChildren ::
    "('n, 'h) RendererOptions \<Rightarrow> nat \<Rightarrow> 'n vchild list \<Rightarrow> 'n option \<Rightarrow> ('n, 'h, 'e) rstate
       \<Rightarrow> ('n vchild list, 'n, 'h, 'e) result"
and patchElement ::
    "('n, 'h) RendererOptions \<Rightarrow> nat \<Rightarrow> 'n old \<Rightarrow> 'n vnode \<Rightarrow> ('n, 'h, 'e) rstate
       \<Rightarrow> ('n vnode, 'n, 'h, 'e) result"
and patchChildren ::
    "('n, 'h) RendererOptions \<Rightarrow> nat \<Rightarrow> nat \<Rightarrow> 'n children \<Rightarrow> 'n vchild list \<Rightarrow> 'n option
       \<Rightarrow> ('n, 'h, 'e) rstate \<Rightarrow> ('n vchild list, 'n, 'h, 'e) result"
and processComponent ::
    "('n, 'h) RendererOptions \<Rightarrow> nat \<Rightarrow> 'n old \<Rightarrow> 'n vnode \<Rightarrow> 'n option \<Rightarrow> ('n, 'h, 'e) rstate
       \<Rightarrow> ('n vnode, 'n, 'h, 'e) result"
and mountComponent ::
    "('n, 'h) RendererOptions \<Rightarrow> nat \<Rightarrow> 'n vnode \<Rightarrow> 'n option \<Rightarrow> ('n, 'h, 'e) rstate
       \<Rightarrow> ('n vnode, 'n, 'h, 'e) result"
and setupRenderEffect ::
    "('n, 'h) RendererOptions \<Rightarrow> nat \<Rightarrow> nat \<Rightarrow> 'n option \<Rightarrow> ('n, 'h, 'e) rstate
       \<Rightarrow> (unit, 'n, 'h, 'e) result"
and componentUpdateFn ::
    "('n, 'h) RendererOptions \<Rightarrow> nat \<Rightarrow> nat \<Rightarrow> ('n, 'h, 'e) rstate
       \<Rightarrow> (unit, 'n, 'h, 'e) result"
and updateComponent ::
    "('n, 'h) RendererOptions \<Rightarrow> nat \<Rightarrow> 'n old \<Rightarrow> 'n vnode \<Rightarrow> ('n, 'h, 'e) rstate
       \<Rightarrow> ('n vnode, 'n, 'h, 'e) result"
where
  "patch opts fuel n1 n2 container st =
     (case vtype_of n2 of
        Text \<Rightarrow> processText opts n1 n2 container st
      | Tag t \<Rightarrow> processElement opts fuel n1 n2 container st
      | Comp c \<Rightarrow> processComponent opts fuel n1 n2 container st)"
| "processElement opts fuel n1 n2 container st =
     (if strictly_null n1 then mountElement opts fuel n2 container st
      else patchElement opts fuel n1 n2 st)"
| "mountElement opts fuel vnode container st =
     and_then (hostCreateElement opts (vtype_of vnode) st) (\<lambda>el st1.
     case array_children vnode of
       Inl err \<Rightarrow> throw err st1
     | Inr children \<Rightarrow>
     and_then (mountChildren opts fuel children (Some el) st1) (\<lambda>cs st2.
     and_then (case props_of vnode of
                 None \<Rightarrow> return () st2
               | Some ps \<Rightarrow> mount_props opts (Some el) ps st2) (\<lambda>u st3.
     and_then (hostInsert opts (Some el) container st3) (\<lambda>u st4.
     return (set_children cs (set_el (Some el) vnode)) st4))))"
| "mountChildren opts fuel [] container st = return [] st"
| "mountChildren opts fuel (c # cs) container st =
     and_then (patch opts fuel ONull (normalizeVNode c) container st) (\<lambda>child st1.
     and_then (mountChildren opts fuel cs container st1) (\<lambda>rest st2.
     return (Node child # rest) st2))"
| "patchElement opts fuel n1 n2 st =
     (case old_el n1 of
        Inl err \<Rightarrow> throw err st
      | Inr el \<Rightarrow>
     (case old_children n1 of
        Inl err \<Rightarrow> throw err st
      | Inr c1 \<Rightarrow>
     (case array_children n2 of
        Inl err \<Rightarrow> throw err st
      | Inr c2 \<Rightarrow>
     and_then (patchChildren opts fuel 0 c1 c2 el st) (\<lambda>cs st1.
     and_then (case props_of n2 of
                 None \<Rightarrow> return () st1
               | Some ps \<Rightarrow> patch_props opts el n1 ps st1) (\<lambda>u st2.
     return (set_children cs (set_el el n2)) st2)))))"
| "patchChildren opts fuel i c1 [] container st = return [] st"
| "patchChildren opts fuel i c1 (c # cs) container st =
     (case child_at c1 i of
        Inl err \<Rightarrow> throw err st
      | Inr n1 \<Rightarrow>
     and_then (patch opts fuel n1 (normalizeVNode c) container st) (\<lambda>child st1.
     and_then (patchChildren opts fuel (Suc i) c1 cs container st1) (\<lambda>rest st2.
     return (Node child # rest) st2)))"
| "processComponent opts fuel n1 n2 container st =
     (if strictly_null n1 then mountComponent opts fuel n2 container st
      else updateComponent opts fuel n1 n2 st)"
| "mountComponent opts fuel initialVNode container st =
     (let i = length (instances st);
          instance0 = createComponentInstance (set_component (Some i) initialVNode);
          instance1 = initProps instance0 (props_of (i_vnode instance0));
          instance2 =
            (case (case vtype_of initialVNode of
                     Comp c \<Rightarrow> setup_fn (components st c)
                   | _ \<Rightarrow> None) of
               None \<Rightarrow> instance1
             | Some f \<Rightarrow> instance1\<lparr>i_render := Some (f (i_props instance1))\<rparr>)
      in and_then (setupRenderEffect opts fuel i container
                     (st\<lparr>instances := instances st @ [instance2]\<rparr>)) (\<lambda>u st1.
         and_then (get_instance i st1) (\<lambda>instance st2.
         return (i_vnode instance) st2)))"
| "setupRenderEffect opts fuel i container st =
     componentUpdateFn opts fuel i (update_instance i (\<lambda>x. x\<lparr>i_container := container\<rparr>) st)"
| "componentUpdateFn opts fuel i st =
     and_then (get_instance i st) (\<lambda>instance st0.
     if \<not> i_isMounted instance
     then (case i_render instance of
             None \<Rightarrow> throw TypeError st0
           | Some render_fn \<Rightarrow>
          (case fuel of
             0 \<Rightarrow> throw OutOfFuel st0
           | Suc fuel' \<Rightarrow>
          and_then (patch opts fuel' ONull
                      (normalizeVNode (render_fn (env st0) (i_props instance)))
                      (i_container instance)
                      (update_instance i (\<lambda>x. x\<lparr>i_subTree :=
                         Some (normalizeVNode (render_fn (env st0) (i_props instance)))\<rparr>) st0))
            (\<lambda>subTree st1.
          return () (update_instance i (\<lambda>x. x\<lparr>i_subTree := Some subTree,
                       i_vnode := set_el (el_of subTree) (i_vnode x),
                       i_isMounted := True\<rparr>) st1))))
     else (let instance1 =
                 (case i_next instance of
                    None \<Rightarrow> instance
                  | Some next_vnode \<Rightarrow>
                      updateProps
                        (instance\<lparr>i_vnode := set_component (Some i)
                                     (set_el (el_of (i_vnode instance)) next_vnode),
                                  i_next := None\<rparr>)
                        (props_of next_vnode));
               st1 = update_instance i (\<lambda>x. instance1) st0
           in (case i_render instance of
                 None \<Rightarrow> throw TypeError st1
               | Some render_fn \<Rightarrow>
              (case i_subTree instance1 of
                 None \<Rightarrow>
                   throw TypeError
                     (update_instance i (\<lambda>x. x\<lparr>i_subTree :=
                        Some (normalizeVNode (render_fn (env st1) (i_props instance1)))\<rparr>) st1)
               | Some prevTree \<Rightarrow>
              (case fuel of
                 0 \<Rightarrow> throw OutOfFuel st1
               | Suc fuel' \<Rightarrow>
              and_then (hostParentNode opts (el_of prevTree)
                          (update_instance i (\<lambda>x. x\<lparr>i_subTree :=
                             Some (normalizeVNode (render_fn (env st1) (i_props instance1)))\<rparr>) st1))
                (\<lambda>parent st2.
              and_then (patch opts fuel' (OVNode prevTree)
                          (normalizeVNode (render_fn (env st1) (i_props instance1))) parent st2)
                (\<lambda>nextTree st3.
              return () (update_instance i (\<lambda>x. x\<lparr>i_subTree := Some nextTree,
                           i_vnode := set_el (el_of nextTree) (i_vnode x)\<rparr>) st3))))))))"
| "updateComponent opts fuel n1 n2 st =
     (case old_component n1 of
        Inl err \<Rightarrow> throw err st
      | Inr None \<Rightarrow> throw TypeError st
      | Inr (Some i) \<Rightarrow>
     and_then (get_instance i st) (\<lambda>instance st0.
     and_then (componentUpdateFn opts fuel i
                 (update_instance i (\<lambda>x. x\<lparr>i_next := Some (set_component (Some i) n2)\<rparr>) st0))
       (\<lambda>u st1.
     and_then (get_instance i st1) (\<lambda>instance' st2.
     return (case i_next instance' of None \<Rightarrow> i_vnode instance' | Some n \<Rightarrow> n) st2))))"
  by pat_completeness auto
termination
proof (relation "inv_image (less_than <*lex*> less_than <*lex*> less_than)
    (case_sum
      (case_sum
        (case_sum (\<lambda>(opts, fuel, n1, n2, container, st). (fuel, vweight n2, 6::nat))
                  (\<lambda>(opts, fuel, n1, n2, container, st). (fuel, vweight n2, 5)))
        (case_sum (\<lambda>(opts, fuel, v, container, st). (fuel, vweight v, 4))
          (case_sum (\<lambda>(opts, fuel, cs, container, st). (fuel, lweight cs, 7))
                    (\<lambda>(opts, fuel, n1, n2, st). (fuel, vweight n2, 4)))))
      (case_sum
        (case_sum (\<lambda>(opts, fuel, i, c1, cs, container, st). (fuel, lweight cs, 7))
          (case_sum (\<lambda>(opts, fuel, n1, n2, container, st). (fuel, vweight n2, 5))
                    (\<lambda>(opts, fuel, v, container, st). (fuel, vweight v, 4))))
        (case_sum (\<lambda>(opts, fuel, i, container, st). (fuel, 0, 3))
          (case_sum (\<lambda>(opts, fuel, i, st). (fuel, 0, 2))
                    (\<lambda>(opts, fuel, n1, n2, st). (fuel, vweight n2, 4))))))", goal_cases)
  case 1
  show ?case by auto
qed (auto simp: lweight_Cons vweight_normalizeVNode cweight_pos vweight_pos
       dest: lweight_array_children)

declare early_patch.simps [simp del] early_processElement.simps [simp del]
  early_mountElement.simps [simp del] early_patchElement.simps [simp del]

declare patch.simps [simp del] processElement.simps [simp del] mountElement.simps [simp del]
  patchElement.simps [simp del] processComponent.simps [simp del]
  mountComponent.simps [simp del] setupRenderEffect.simps [simp del]
  componentUpdateFn.simps [simp del] updateComponent.simps [simp del]

text \<open>
  The root \<open>render\<close> of the later renderer: it wraps the root component in a node with an
  empty prop set and no children, and mounts it.
\<close>

definition render ::
  "('n, 'h) RendererOptions \<Rightarrow> nat \<Rightarrow> nat \<Rightarrow> 'n option \<Rightarrow> ('n, 'h, 'e) rstate
     \<Rightarrow> (unit, 'n, 'h, 'e) result" where
  "render opts fuel rootComponent container st =
     and_then (patch opts fuel ONull (createVNode rootComponent (Some []) []) container st)
       (\<lambda>vnode st1. return () st1)"

section \<open>Notions the properties are stated with\<close>

text \<open>The prop set of a node as a list: no props when the node has none.\<close>

definition prop_list :: "props option \<Rightarrow> props" where
  "prop_list ps = (case ps of None \<Rightarrow> [] | Some p \<Rightarrow> p)"

text \<open>
  Reconciling a list of (old, new) pairs one after the other, in the spec's words for child
  lists: each new node is patched against its old partner into the same container, from
  left to right, and the first exception ends the pass.
\<close>

fun patch_each ::
  "('n, 'h) RendererOptions \<Rightarrow> nat \<Rightarrow> ('n old \<times> 'n vnode) list \<Rightarrow> 'n option
     \<Rightarrow> ('n, 'h, 'e) rstate \<Rightarrow> ('n vchild list, 'n, 'h, 'e) result" where
  "patch_each opts fuel [] container st = return [] st"
| "patch_each opts fuel ((n1, n2) # pairs) container st =
     and_then (patch opts fuel n1 n2 container st) (\<lambda>child st1.
     and_then (patch_each opts fuel pairs container st1) (\<lambda>rest st2.
     return (Node child # rest) st2))"

text \<open>A tree of \<open>Text\<close> nodes, raw strings and elements with a tag name: no component in it.\<close>

fun comp_free :: "'n vnode \<Rightarrow> bool" and comp_free_child :: "'n vchild \<Rightarrow> bool" where
  "comp_free (VText s e) = True"
| "comp_free (VElem t ps cs e) = list_all comp_free_child cs"
| "comp_free (VComp c ps cs e i) = False"
| "comp_free_child (Raw s) = True"
| "comp_free_child (Node v) = comp_free v"

text \<open>The store of a result holds at least \<open>n\<close> instances.\<close>

definition at_least_instances :: "nat \<Rightarrow> ('a, 'n, 'h, 'e) result \<Rightarrow> bool" where
  "at_least_instances n r \<longleftrightarrow> n \<le> length (instances (snd (snd r)))"

section \<open>A host and states to run the renderers on\<close>

text \<open>
  A host that numbers the nodes it creates consecutively and keeps nothing else; every
  node is a root, so \<open>parentNode\<close> answers \<open>null\<close>. In \<open>empty_state\<close> it has handed out node
  \<open>0\<close>, the container, and no component is defined with a \<open>setup\<close>.
\<close>

definition counting_host :: "(nat, nat) RendererOptions" where
  "counting_host =
     \<lparr>patchProp = (\<lambda>el key v h. h),
      createElement = (\<lambda>ty h. (h, Suc h)),
      createText = (\<lambda>s h. (h, Suc h)),
      setText = (\<lambda>el s h. h),
      setElementText = (\<lambda>el s h. h),
      insert_op = (\<lambda>child parent h. h),
      parentNode = (\<lambda>el h. None)\<rparr>"

definition empty_state :: "(nat, nat, unit) rstate" where
  "empty_state =
     \<lparr>host = 1, instances = [], components = (\<lambda>c. \<lparr>setup_fn = None\<rparr>), env = ()\<rparr>"

text \<open>The tree of the spec's end-to-end scenario, and a component that renders it.\<close>

definition count_div :: "nat vnode" where
  "count_div = VElem ''div'' (Some [(''id'', Str ''app'')]) [Raw ''count: 0''] None"

definition app_state :: "(nat, nat, unit) rstate" where
  "app_state =
     \<lparr>host = 1, instances = [],
      components = (\<lambda>c. \<lparr>setup_fn = Some (\<lambda>props0 e props1. Node count_div)\<rparr>),
      env = ()\<rparr>"

text \<open>
  A component that shows its prop \<open>n\<close> as text, in two states: its instance created and
  given its render function but not run yet, and its instance mounted on the text node
  \<open>1\<close> with \<open>n = 0\<close>.
\<close>

definition show_n :: "unit \<Rightarrow> props \<Rightarrow> nat vchild" where
  "show_n e ps = Raw (if map_of ps ''n'' = Some (Num 1) then ''one'' else ''zero'')"

definition pending_state :: "(nat, nat, unit) rstate" where
  "pending_state =
     \<lparr>host = 1,
      instances =
        [\<lparr>i_vnode = VComp 0 (Some [(''n'', Num 0)]) [] None (Some 0), i_next = None,
          i_props = [(''n'', Num 0)], i_render = Some show_n, i_subTree = None,
          i_isMounted = False, i_container = None\<rparr>],
      components = (\<lambda>c. \<lparr>setup_fn = Some (\<lambda>props0. show_n)\<rparr>),
      env = ()\<rparr>"

definition mounted_state :: "(nat, nat, unit) rstate" where
  "mounted_state =
     \<lparr>host = 2,
      instances =
        [\<lparr>i_vnode = VComp 0 (Some [(''n'', Num 0)]) [] (Some 1) (Some 0), i_next = None,
          i_props = [(''n'', Num 0)], i_render = Some show_n,
          i_subTree = Some (VText ''zero'' (Some 1)),
          i_isMounted = True, i_container = Some 0\<rparr>],
      components = (\<lambda>c. \<lparr>setup_fn = Some (\<lambda>props0. show_n)\<rparr>),
      env = ()\<rparr>"

section \<open>Sequencing and the prop loops\<close>

declare old_child_at.simps [simp del]

lemma and_then_return [simp]: "and_then (return a st) k = k a st"
  by (simp add: and_then_def return_def split: prod.splits)

lemma and_then_throw [simp]: "and_then (throw e st) k = throw e st"
  by (simp add: and_then_def throw_def)

lemma and_then_error [simp]: "and_then (cs, Inl e, st) k = (cs, Inl e, st)"
  by (simp add: and_then_def)

lemma mount_props_calls:
  "mount_props opts el ps st =
     (map (\<lambda>(key, v). PatchProp el key v) ps, Inr (),
      st\<lparr>host := fold (\<lambda>(key, v). patchProp opts el key v) ps (host st)\<rparr>)"
proof (induction ps arbitrary: st)
  case Nil
  show ?case by (simp add: return_def)
next
  case (Cons p ps)
  obtain key v where p: "p = (key, v)" by (cases p)
  show ?case
    by (simp add: p Cons.IH hostPatchProp_def and_then_def)
qed

text \<open>
  What the prop loop of \<open>patchElement\<close> does: one \<open>patchProp\<close>, in the order of the new prop
  set, for every key whose new value is not strictly equal to what \<open>n1.props?.[key]\<close>
  yields, and none for the others.
\<close>

lemma patch_props_calls:
  "patch_props opts el n1 ps st =
     (map (\<lambda>(key, v). PatchProp el key v) (filter (\<lambda>(key, v). v \<noteq> old_prop n1 key) ps),
      Inr (),
      st\<lparr>host := fold (\<lambda>(key, v). patchProp opts el key v)
                     (filter (\<lambda>(key, v). v \<noteq> old_prop n1 key) ps) (host st)\<rparr>)"
proof (induction ps arbitrary: st)
  case Nil
  show ?case by (simp add: return_def)
next
  case (Cons p ps)
  obtain key v where p: "p = (key, v)" by (cases p)
  show ?case
    by (simp add: p Cons.IH hostPatchProp_def and_then_def)
qed

section \<open>Text nodes\<close>

lemma payload_differs_iff: "payload_differs s (OVNode v) \<longleftrightarrow> children_of v \<noteq> KString s"
  by (cases v) auto

text \<open>
  C1. Patching a \<open>Text\<close> node against an old node that is there makes exactly one host call,
  \<open>setText\<close> on the old node's host node with the new payload, when the new payload differs
  from what the old node holds as children, and makes no host call and leaves the state as
  it is when the two are equal. Either way the new node takes over the old host node.
\<close>

theorem text_patch_minimal:
  "patch opts fuel (OVNode v) (VText s e) container st =
     (if children_of v = KString s
      then ([], Inr (VText s (el_of v)), st)
      else ([SetText (el_of v) s], Inr (VText s (el_of v)),
            st\<lparr>host := setText opts (el_of v) s (host st)\<rparr>))"
  by (simp add: patch.simps payload_differs_iff and_then_def return_def hostSetText_def)

theorem text_patch_minimal_witness:
  "patch counting_host 0 (OVNode (VText ''a'' (Some 7))) (VText ''a'' None) None empty_state
     = ([], Inr (VText ''a'' (Some 7)), empty_state)
   \<and> fst (patch counting_host 0 (OVNode (VText ''a'' (Some 7))) (VText ''b'' None) None
            empty_state)
     = [SetText (Some 7) ''b'']"
  by (simp add: text_patch_minimal)

section \<open>Patching the props of an element\<close>

text \<open>
  The host calls of an element patch whose children are patched without an exception: the
  calls of the children, then the \<open>patchProp\<close> calls of \<open>patch_props_calls\<close>. The spec's
  example (\<open>id\<close> unchanged, \<open>class\<close> changed) is an instance.
\<close>

lemma patchElement_prop_calls:
  assumes "patchChildren opts fuel 0 (KArray c1) c2 e1 st = (cc, Inr cs', st1)"
  shows "patch opts fuel (OVNode (VElem t1 ps1 c1 e1)) (VElem t2 ps2 c2 e2) container st =
     (cc @ map (\<lambda>(key, v). PatchProp e1 key v)
             (filter (\<lambda>(key, v). v \<noteq> old_prop (OVNode (VElem t1 ps1 c1 e1)) key)
                (prop_list ps2)),
      Inr (VElem t2 ps2 cs' e1),
      st1\<lparr>host := fold (\<lambda>(key, v). patchProp opts e1 key v)
               (filter (\<lambda>(key, v). v \<noteq> old_prop (OVNode (VElem t1 ps1 c1 e1)) key)
                  (prop_list ps2))
               (host st1)\<rparr>)"
  using assms
  by (cases ps2)
     (simp_all add: patch.simps processElement.simps patchElement.simps prop_list_def
      patch_props_calls and_then_def return_def)

lemma patch_changed_class_only:
  "fst (patch opts fuel
          (OVNode (VElem t (Some [(''id'', Str ''x''), (''class'', Str ''c'')]) [] e1))
          (VElem t (Some [(''id'', Str ''x''), (''class'', Str ''d'')]) [] e2) container st)
     = [PatchProp e1 ''class'' (Str ''d'')]"
  by (simp add: patch.simps processElement.simps patchElement.simps and_then_def
      hostPatchProp_def return_def)

text \<open>
  A first mount applies every prop of the prop set, also one whose value is \<open>undefined\<close>.
\<close>

lemma mount_applies_undefined_prop:
  "fst (patch opts fuel ONull (VElem t (Some [(''id'', Undefined)]) [] e) container st)
     = [CreateElement (Tag t),
        PatchProp (Some (fst (createElement opts (Tag t) (host st)))) ''id'' Undefined,
        Insert (Some (fst (createElement opts (Tag t) (host st)))) container]"
  by (simp add: patch.simps processElement.simps mountElement.simps and_then_def return_def
      hostCreateElement_def hostPatchProp_def hostInsert_def)

text \<open>
  C2. The claim asks for a \<open>patchProp\<close> call for every key of the new prop set that the old
  prop set lacks. The code makes none when the new value of such a key is \<open>undefined\<close>:
  patching an element with the empty prop set against one with the prop set
  \<open>{id: undefined}\<close> makes no host call at all.
\<close>

theorem patch_skips_undefined_new_prop:
  "patch opts fuel (OVNode (VElem t (Some []) [] e1))
         (VElem t (Some [(''id'', Undefined)]) [] e2) container st
     = ([], Inr (VElem t (Some [(''id'', Undefined)]) [] e1), st)"
  by (simp add: patch.simps processElement.simps patchElement.simps)
     (simp add: return_def)

section \<open>Patching the children of an element\<close>

lemma patchChildren_positional:
  "patchChildren opts fuel i (KArray c1) cs container st =
     patch_each opts fuel
       (map (\<lambda>j. (old_child_at c1 (i + j), normalizeVNode (cs ! j))) [0..<length cs])
       container st"
proof (induction cs arbitrary: i st)
  case Nil
  show ?case by simp
next
  case (Cons c cs)
  have upt: "[0..<length (c # cs)] = 0 # map Suc [0..<length cs]"
    by (simp add: upt_conv_Cons map_Suc_upt del: upt_Suc)
  show ?case
    unfolding upt by (simp add: Cons.IH comp_def)
qed

text \<open>
  C3. An element patch reconciles the children by position: for the indices
  \<open>0, 1, ...\<close> of the new child list in this order, the normalized new child at \<open>i\<close> is
  patched against whatever the old child list holds at \<open>i\<close> (\<open>undefined\<close> past its end), into
  the element's host node; after that come the props. Nothing but the index pairs a new
  child with an old one. An exception raised at some index ends the pass there.
\<close>

theorem patchElement_children_positional:
  "patchElement opts fuel (OVNode (VElem t1 ps1 c1 e1)) (VElem t2 ps2 c2 e2) st =
     and_then
       (patch_each opts fuel
          (map (\<lambda>i. (old_child_at c1 i, normalizeVNode (c2 ! i))) [0..<length c2]) e1 st)
       (\<lambda>cs st1.
          and_then (patch_props opts e1 (OVNode (VElem t1 ps1 c1 e1)) (prop_list ps2) st1)
            (\<lambda>u st2. return (VElem t2 ps2 cs e1) st2))"
  by (cases ps2)
     (simp_all add: patchElement.simps patchChildren_positional prop_list_def)

theorem patchElement_children_positional_witness:
  "fst (patchElement counting_host 0
          (OVNode (VElem ''ul'' None [Node (VText ''a'' (Some 5)), Node (VText ''b'' (Some 6))]
                     (Some 4)))
          (VElem ''ul'' None [Raw ''b'', Raw ''a''] None) empty_state)
     = [SetText (Some 5) ''b'', SetText (Some 6) ''a'']"
  by (simp add: patchElement_children_positional patch.simps old_child_at.simps prop_list_def
      upt_conv_Cons and_then_def return_def hostSetText_def)

lemma patchChildren_ignores_extra:
  "i + length cs \<le> length c1 \<Longrightarrow>
   patchChildren opts fuel i (KArray (c1 @ extra)) cs container st =
   patchChildren opts fuel i (KArray c1) cs container st"
proof (induction cs arbitrary: i st)
  case Nil
  show ?case by simp
next
  case (Cons c cs)
  from Cons.prems have "i < length c1" and "Suc i + length cs \<le> length c1" by simp_all
  then show ?case
    by (simp add: Cons.IH old_child_at.simps nth_append)
qed

text \<open>
  C10. The renderer has no way to remove a host node: no call it can make on the host
  (\<open>call\<close>) removes or detaches one. And when the new child list of an element is not longer
  than the old one, the old children beyond its length play no part in the patch: with
  or without them the patch makes the same host calls, returns the same node and leaves
  the same state. So no host call is made on their account, and their host nodes stay where
  they are.
\<close>

theorem extra_old_children_ignored:
  assumes "length c2 \<le> length c1"
  shows "patch opts fuel (OVNode (VElem t1 ps1 (c1 @ extra) e1)) (VElem t2 ps2 c2 e2) container st
       = patch opts fuel (OVNode (VElem t1 ps1 c1 e1)) (VElem t2 ps2 c2 e2) container st"
  using assms
  by (cases ps2)
     (simp_all add: patch.simps processElement.simps patchElement.simps
        patchChildren_ignores_extra patch_props_calls)

theorem extra_old_children_ignored_witness:
  "length [Raw ''x'' :: nat vchild] \<le> length [Node (VText ''a'' (Some 5)) :: nat vchild]
   \<and> patch counting_host 0
        (OVNode (VElem ''ul'' None ([Node (VText ''a'' (Some 5))] @ [Node (VText ''b'' (Some 6))])
                   (Some 4)))
        (VElem ''ul'' None [Raw ''x''] None) None empty_state
     = ([SetText (Some 5) ''x''], Inr (VElem ''ul'' None [Node (VText ''x'' (Some 5))] (Some 4)),
        empty_state)"
proof -
  have short: "length [Raw ''x'' :: nat vchild] \<le> length [Node (VText ''a'' (Some 5)) :: nat vchild]"
    by simp
  have "patch counting_host 0
          (OVNode (VElem ''ul'' None [Node (VText ''a'' (Some 5))] (Some 4)))
          (VElem ''ul'' None [Raw ''x''] None) None empty_state
        = ([SetText (Some 5) ''x''], Inr (VElem ''ul'' None [Node (VText ''x'' (Some 5))] (Some 4)),
           empty_state)"
    by (simp add: patch.simps processElement.simps patchElement.simps old_child_at.simps
        and_then_def return_def hostSetText_def counting_host_def empty_state_def)
  with short show ?thesis
    unfolding extra_old_children_ignored [OF short] by simp
qed

section \<open>Mounting an element\<close>

lemma mountChildren_each:
  "mountChildren opts fuel cs container st =
     patch_each opts fuel (map (\<lambda>c. (ONull, normalizeVNode c)) cs) container st"
  by (induction cs arbitrary: st) simp_all

text \<open>
  C4. A first mount of an element calls \<open>createElement\<close> with the tag name, then mounts
  the normalized children from left to right into the node just created, then calls
  \<open>patchProp\<close> for every prop in the order of the prop set, and last inserts the node into
  the container. If mounting a child throws, the mount ends there with that exception and
  the node is not inserted.
\<close>

theorem mountElement_order:
  "mountElement opts fuel (VElem tag ps cs e) container st =
     (let el = fst (createElement opts (Tag tag) (host st));
          st1 = st\<lparr>host := snd (createElement opts (Tag tag) (host st))\<rparr>
      in case patch_each opts fuel (map (\<lambda>c. (ONull, normalizeVNode c)) cs) (Some el) st1 of
           (ccalls, Inl err, st2) \<Rightarrow> (CreateElement (Tag tag) # ccalls, Inl err, st2)
         | (ccalls, Inr cs', st2) \<Rightarrow>
             (CreateElement (Tag tag) # ccalls
                @ map (\<lambda>(key, v). PatchProp (Some el) key v) (prop_list ps)
                @ [Insert (Some el) container],
              Inr (VElem tag ps cs' (Some el)),
              st2\<lparr>host := insert_op opts (Some el) container
                       (fold (\<lambda>(key, v). patchProp opts (Some el) key v) (prop_list ps)
                          (host st2))\<rparr>))"
  by (cases ps)
     (simp_all add: mountElement.simps mountChildren_each prop_list_def mount_props_calls
      hostCreateElement_def hostInsert_def and_then_def return_def Let_def
      split: prod.splits sum.splits)

theorem mountElement_order_witness:
  "fst (mountElement counting_host 0 count_div (Some 0) empty_state)
     = [CreateElement (Tag ''div''), CreateText ''count: 0'', Insert (Some 2) (Some 1),
        PatchProp (Some 1) ''id'' (Str ''app''), Insert (Some 1) (Some 0)]"
  unfolding count_div_def mountElement_order
  by (simp add: patch.simps prop_list_def and_then_def return_def hostCreateText_def
      hostInsert_def counting_host_def empty_state_def)

section \<open>Normalization\<close>

text \<open>
  C8. Normalizing is idempotent: a normalized child, normalized again, is the same node;
  a raw string is wrapped into a \<open>Text\<close> node once and not a second time.
\<close>

theorem normalizeVNode_idempotent:
  "normalizeVNode (Node (normalizeVNode x)) = normalizeVNode x"
  by simp

section \<open>The two renderers on trees without components\<close>

lemma comp_free_array_children:
  "comp_free v \<Longrightarrow> array_children v = Inr cs \<Longrightarrow> list_all comp_free_child cs"
  by (cases v) (auto split: if_splits)

lemma comp_free_normalizeVNode: "comp_free_child c \<Longrightarrow> comp_free (normalizeVNode c)"
  by (cases c) simp_all

lemma comp_free_vtype: "comp_free v \<Longrightarrow> vtype_of v \<noteq> Comp c"
  by (cases v) simp_all

lemma later_eq_early:
  fixes opts :: "('n, 'h) RendererOptions" and st st' :: "('n, 'h, 'e) rstate"
  shows
    "comp_free n2 \<Longrightarrow>
       patch opts fuel n1 n2 container st = early_patch opts n1 n2 container st"
    "comp_free n2 \<Longrightarrow>
       processElement opts fuel n1 n2 container st = early_processElement opts n1 n2 container st"
    "comp_free v \<Longrightarrow>
       mountElement opts fuel v container st = early_mountElement opts v container st"
    "list_all comp_free_child cs \<Longrightarrow>
       mountChildren opts fuel cs container st = early_mountChildren opts cs container st"
    "comp_free n2 \<Longrightarrow>
       patchElement opts fuel n1 n2 st' = early_patchElement opts n1 n2 st'"
    "list_all comp_free_child cs' \<Longrightarrow>
       patchChildren opts fuel i c1 cs' container st = early_patchChildren opts i c1 cs' container st"
proof (induction opts n1 n2 container st and opts n1 n2 container st and opts v container st
    and opts cs container st and opts n1 n2 st' and opts i c1 cs' container st
    rule: early_patch_early_processElement_early_mountElement_early_mountChildren_early_patchElement_early_patchChildren.induct)
  case (1 opts n1 n2 container st)
  then show ?case
    by (cases "vtype_of n2")
       (simp_all add: patch.simps early_patch.simps comp_free_vtype)
next
  case (2 opts n1 n2 container st)
  then show ?case
    by (simp add: processElement.simps early_processElement.simps)
next
  case (3 opts vnode container st)
  show ?case
    unfolding mountElement.simps early_mountElement.simps
  proof (rule and_then_cong [OF refl], goal_cases)
    case (1 cs a sta)
    show ?case
    proof (cases "array_children vnode")
      case (Inl err)
      then show ?thesis by simp
    next
      case (Inr children)
      have "list_all comp_free_child children"
        using "3.prems" Inr by (rule comp_free_array_children)
      then have "mountChildren opts fuel children (Some a) sta
                   = early_mountChildren opts children (Some a) sta"
        using "3.IH" [OF 1 Inr] by simp
      then show ?thesis by (simp add: Inr)
    qed
  qed
next
  case (4 opts container st)
  show ?case by simp
next
  case (5 opts c cs container st)
  from "5.prems" have c: "comp_free (normalizeVNode c)" and cs: "list_all comp_free_child cs"
    by (simp_all add: comp_free_normalizeVNode)
  have p: "patch opts fuel ONull (normalizeVNode c) container st
             = early_patch opts ONull (normalizeVNode c) container st"
    using "5.IH"(1) c by simp
  show ?case
    unfolding mountChildren.simps early_mountChildren.simps p
  proof (rule and_then_cong [OF refl], goal_cases)
    case (1 csa a sta)
    then show ?case using "5.IH"(2) cs by simp
  qed
next
  case (6 opts n1 n2 st)
  show ?case
  proof (cases "old_el n1")
    case (Inl err)
    then show ?thesis by (simp add: patchElement.simps early_patchElement.simps)
  next
    case el: (Inr el)
    show ?thesis
    proof (cases "old_children n1")
      case (Inl err)
      then show ?thesis by (simp add: el patchElement.simps early_patchElement.simps)
    next
      case c1: (Inr c1)
      show ?thesis
      proof (cases "array_children n2")
        case (Inl err)
        then show ?thesis by (simp add: el c1 patchElement.simps early_patchElement.simps)
      next
        case c2: (Inr c2)
        have "list_all comp_free_child c2"
          using "6.prems" c2 by (rule comp_free_array_children)
        then have "patchChildren opts fuel 0 c1 c2 el st = early_patchChildren opts 0 c1 c2 el st"
          using "6.IH" [OF el c1 c2] by simp
        then show ?thesis by (simp add: el c1 c2 patchElement.simps early_patchElement.simps)
      qed
    qed
  qed
next
  case (7 opts i c1 container st)
  show ?case by simp
next
  case (8 opts i c1 c cs container st)
  from "8.prems" have c: "comp_free (normalizeVNode c)" and cs: "list_all comp_free_child cs"
    by (simp_all add: comp_free_normalizeVNode)
  show ?case
  proof (cases "child_at c1 i")
    case (Inl err)
    then show ?thesis by simp
  next
    case (Inr n1)
    have p: "patch opts fuel n1 (normalizeVNode c) container st
               = early_patch opts n1 (normalizeVNode c) container st"
      using "8.IH"(1) [OF Inr] c by simp
    show ?thesis
      unfolding patchChildren.simps early_patchChildren.simps Inr sum.case p
    proof (rule and_then_cong [OF refl], goal_cases)
      case (1 csa a sta)
      then show ?case using "8.IH"(2) [OF Inr] cs by simp
    qed
  qed
qed

text \<open>
  C9. On a new tree that holds no component node, the \<open>patch\<close> of the later renderer does
  what the \<open>patch\<close> of the earlier one does, whatever the old node, the container, the host
  and the state are and however much fuel there is: the same host calls in the same
  order, the same updated node or exception, the same state.
\<close>

theorem later_patch_is_early_patch:
  assumes "comp_free n2"
  shows "patch opts fuel n1 n2 container st = early_patch opts n1 n2 container st"
  using assms by (rule later_eq_early(1))

theorem later_patch_is_early_patch_witness:
  "comp_free count_div
   \<and> patch counting_host 0 ONull count_div (Some 0) empty_state
       = early_patch counting_host ONull count_div (Some 0) empty_state
   \<and> fst (early_patch counting_host ONull count_div (Some 0) empty_state)
       = [CreateElement (Tag ''div''), CreateText ''count: 0'', Insert (Some 2) (Some 1),
          PatchProp (Some 1) ''id'' (Str ''app''), Insert (Some 1) (Some 0)]"
proof -
  have free: "comp_free count_div"
    by (simp add: count_div_def)
  have calls: "fst (early_patch counting_host ONull count_div (Some 0) empty_state)
       = [CreateElement (Tag ''div''), CreateText ''count: 0'', Insert (Some 2) (Some 1),
          PatchProp (Some 1) ''id'' (Str ''app''), Insert (Some 1) (Some 0)]"
    by (simp add: count_div_def early_patch.simps early_processElement.simps
        early_mountElement.simps and_then_def return_def hostCreateElement_def
        hostCreateText_def hostInsert_def hostPatchProp_def counting_host_def empty_state_def)
  from free calls later_patch_is_early_patch [OF free] show ?thesis by simp
qed

section \<open>The store of instances only grows\<close>

lemma ali_return [simp]: "at_least_instances n (return a st) \<longleftrightarrow> n \<le> length (instances st)"
  by (simp add: at_least_instances_def return_def)

lemma ali_throw [simp]: "at_least_instances n (throw e st) \<longleftrightarrow> n \<le> length (instances st)"
  by (simp add: at_least_instances_def throw_def)

lemma ali_and_then:
  assumes "at_least_instances n r"
    and "\<And>cs a st1. r = (cs, Inr a, st1) \<Longrightarrow> n \<le> length (instances st1)
           \<Longrightarrow> at_least_instances n (k a st1)"
  shows "at_least_instances n (and_then r k)"
proof -
  obtain cs x st1 where r: "r = (cs, x, st1)" by (cases r)
  show ?thesis
  proof (cases x)
    case (Inl e)
    with r assms(1) show ?thesis by (simp add: at_least_instances_def)
  next
    case (Inr a)
    with r assms have "at_least_instances n (k a st1)" by (simp add: at_least_instances_def)
    with r Inr show ?thesis
      by (auto simp: at_least_instances_def and_then_def split: prod.splits)
  qed
qed

lemma length_update_instance [simp]:
  "length (instances (update_instance i f st)) = length (instances st)"
  by (simp add: update_instance_def)

lemma ali_hostCreateElement [simp]:
  "at_least_instances n (hostCreateElement opts ty st) \<longleftrightarrow> n \<le> length (instances st)"
  by (simp add: at_least_instances_def hostCreateElement_def)

lemma ali_hostCreateText [simp]:
  "at_least_instances n (hostCreateText opts s st) \<longleftrightarrow> n \<le> length (instances st)"
  by (simp add: at_least_instances_def hostCreateText_def)

lemma ali_hostSetText [simp]:
  "at_least_instances n (hostSetText opts el s st) \<longleftrightarrow> n \<le> length (instances st)"
  by (simp add: at_least_instances_def hostSetText_def)

lemma ali_hostInsert [simp]:
  "at_least_instances n (hostInsert opts a b st) \<longleftrightarrow> n \<le> length (instances st)"
  by (simp add: at_least_instances_def hostInsert_def)

lemma ali_hostParentNode [simp]:
  "at_least_instances n (hostParentNode opts el st) \<longleftrightarrow> n \<le> length (instances st)"
  by (simp add: at_least_instances_def hostParentNode_def)

lemma ali_get_instance [simp]:
  "at_least_instances n (get_instance i st) \<longleftrightarrow> n \<le> length (instances st)"
  by (simp add: get_instance_def)

lemma ali_mount_props [simp]:
  "at_least_instances n (mount_props opts el ps st) \<longleftrightarrow> n \<le> length (instances st)"
  by (simp add: mount_props_calls at_least_instances_def)

lemma ali_patch_props [simp]:
  "at_least_instances n (patch_props opts el n1 ps st) \<longleftrightarrow> n \<le> length (instances st)"
  by (simp add: patch_props_calls at_least_instances_def)

lemma ali_processText:
  "n \<le> length (instances st) \<Longrightarrow> at_least_instances n (processText opts n1 (VText s e) container st)"
  by (auto intro!: ali_and_then split: sum.splits)

lemma vtype_Text: "vtype_of v = Text \<Longrightarrow> \<exists>s e. v = VText s e"
  by (cases v) simp_all

lemma later_keeps_instances:
  fixes opts :: "('n, 'h) RendererOptions" and st st5 st10 st11 :: "('n, 'h, 'e) rstate"
  shows
    "n \<le> length (instances st) \<Longrightarrow> at_least_instances n (patch opts fuel n1 n2 container st)"
    "n \<le> length (instances st) \<Longrightarrow> at_least_instances n (processElement opts fuel n1 n2 container st)"
    "n \<le> length (instances st) \<Longrightarrow> at_least_instances n (mountElement opts fuel v container st)"
    "n \<le> length (instances st) \<Longrightarrow> at_least_instances n (mountChildren opts fuel cs container st)"
    "n \<le> length (instances st5) \<Longrightarrow> at_least_instances n (patchElement opts fuel n1 n2 st5)"
    "n \<le> length (instances st) \<Longrightarrow> at_least_instances n (patchChildren opts fuel i c1 cs container st)"
    "n \<le> length (instances st) \<Longrightarrow> at_least_instances n (processComponent opts fuel n1 n2 container st)"
    "n \<le> length (instances st) \<Longrightarrow> at_least_instances n (mountComponent opts fuel v container st)"
    "n \<le> length (instances st) \<Longrightarrow> at_least_instances n (setupRenderEffect opts fuel i container st)"
    "n \<le> length (instances st10) \<Longrightarrow> at_least_instances n (componentUpdateFn opts fuel i st10)"
    "n \<le> length (instances st11) \<Longrightarrow> at_least_instances n (updateComponent opts fuel n1 n2 st11)"
proof (induction opts fuel n1 n2 container st and opts fuel n1 n2 container st
    and opts fuel v container st and opts fuel cs container st and opts fuel n1 n2 st5
    and opts fuel i c1 cs container st and opts fuel n1 n2 container st
    and opts fuel v container st and opts fuel i container st and opts fuel i st10
    and opts fuel n1 n2 st11
    rule: patch_processElement_mountElement_mountChildren_patchElement_patchChildren_processComponent_mountComponent_setupRenderEffect_componentUpdateFn_updateComponent.induct)
  case (1 opts fuel n1 n2 container st)
  then show ?case
    by (cases "vtype_of n2")
       (auto simp: patch.simps ali_processText simp del: processText.simps dest!: vtype_Text)
next
  case (2 opts fuel n1 n2 container st)
  then show ?case by (simp add: processElement.simps)
next
  case (3 opts fuel vnode container st)
  then show ?case
    unfolding mountElement.simps
    by (auto intro!: ali_and_then split: sum.splits option.splits)
next
  case (4 opts fuel container st)
  then show ?case by simp
next
  case (5 opts fuel c cs container st)
  then show ?case by (auto intro!: ali_and_then)
next
  case (6 opts fuel n1 n2 st)
  then show ?case
    unfolding patchElement.simps
    by (auto intro!: ali_and_then split: sum.splits option.splits)
next
  case (7 opts fuel i c1 container st)
  then show ?case by simp
next
  case (8 opts fuel i c1 c cs container st)
  then show ?case by (auto intro!: ali_and_then split: sum.splits)
next
  case (9 opts fuel n1 n2 container st)
  then show ?case by (simp add: processComponent.simps)
next
  case (10 opts fuel initialVNode container st)
  show ?case
    unfolding mountComponent.simps Let_def
    by (rule ali_and_then, rule "10.IH" [OF refl refl refl refl])
       (use "10.prems" in \<open>auto intro!: ali_and_then\<close>)
next
  case (11 opts fuel i container st)
  then show ?case
    unfolding setupRenderEffect.simps by simp
next
  case (12 opts fuel i st)
  show ?case
    unfolding componentUpdateFn.simps
  proof (rule ali_and_then, goal_cases)
    case 1
    show ?case using "12.prems" by simp
  next
    case (2 cs a sta)
    note g = 2
    show ?case
    proof (cases "i_isMounted a")
      case False
      then show ?thesis
        using "12.IH"(1) [OF g(1) False] g(2)
        by (auto intro!: ali_and_then split: option.splits nat.splits)
    next
      case True
      then show ?thesis
        using "12.IH"(2) [OF g(1) _ refl refl] g(2)
        by (auto simp: Let_def intro!: ali_and_then split: option.splits nat.splits)
    qed
  qed
next
  case (13 opts fuel n1 n2 st)
  show ?case
    unfolding updateComponent.simps
    using "13.IH" "13.prems"
    by (auto intro!: ali_and_then split: sum.splits option.splits)
qed

lemma patch_at_least_instances:
  "patch opts fuel n1 n2 container st = (calls, r, st1)
     \<Longrightarrow> length (instances st) \<le> length (instances st1)"
  using later_keeps_instances(1) [of "length (instances st)" st opts fuel n1 n2 container]
  by (simp add: at_least_instances_def)

section \<open>Components\<close>

text \<open>
  C5. The first run of an instance's render effect (the instance is not mounted and has a
  render function): the render function is called on the instance's props, its result is
  normalized and stored as the instance's subtree, the subtree is patched against \<open>null\<close>
  into the container given to \<open>setupRenderEffect\<close>; when that patch returns, the host calls
  of the run are those of the patch, the instance holds the patched subtree, the node it
  tracks has the subtree's host node as its \<open>el\<close>, and the instance is mounted.
\<close>

theorem first_effect_run_mounts:
  assumes i: "i < length (instances st)"
    and unmounted: "\<not> i_isMounted (instances st ! i)"
    and render_fn: "i_render (instances st ! i) = Some r"
    and mounted:
      "patch opts fuel ONull (normalizeVNode (r (env st) (i_props (instances st ! i)))) container
         (st\<lparr>instances := (instances st)[i := (instances st ! i)
            \<lparr>i_container := container,
             i_subTree := Some (normalizeVNode (r (env st) (i_props (instances st ! i))))\<rparr>]\<rparr>)
       = (calls, Inr subTree, st1)"
  shows "setupRenderEffect opts (Suc fuel) i container st =
           (calls, Inr (),
            st1\<lparr>instances := (instances st1)[i := (instances st1 ! i)
               \<lparr>i_subTree := Some subTree,
                i_vnode := set_el (el_of subTree) (i_vnode (instances st1 ! i)),
                i_isMounted := True\<rparr>]\<rparr>)
         \<and> i < length (instances st1)"
proof -
  have "length (instances st) \<le> length (instances st1)"
    using patch_at_least_instances [OF mounted] by simp
  with i have i1: "i < length (instances st1)" by simp
  show ?thesis
    using i unmounted render_fn mounted i1
    by (simp add: setupRenderEffect.simps componentUpdateFn.simps get_instance_def
        update_instance_def and_then_def return_def)
qed

theorem first_effect_run_mounts_witness:
  "fst (setupRenderEffect counting_host (Suc 0) 0 (Some 0) pending_state)
     = [CreateText ''zero'', Insert (Some 1) (Some 0)]
   \<and> i_isMounted (instances (snd (snd (setupRenderEffect counting_host (Suc 0) 0 (Some 0)
        pending_state))) ! 0)
   \<and> i_vnode (instances (snd (snd (setupRenderEffect counting_host (Suc 0) 0 (Some 0)
        pending_state))) ! 0)
     = VComp 0 (Some [(''n'', Num 0)]) [] (Some 1) (Some 0)"
proof -
  let ?st0 = "pending_state\<lparr>instances := (instances pending_state)
      [0 := (instances pending_state ! 0)\<lparr>i_container := Some 0,
         i_subTree := Some (normalizeVNode (show_n (env pending_state)
                        (i_props (instances pending_state ! 0))))\<rparr>]\<rparr>"
  have run: "patch counting_host 0 ONull
               (normalizeVNode (show_n (env pending_state) (i_props (instances pending_state ! 0))))
               (Some 0) ?st0
             = ([CreateText ''zero'', Insert (Some 1) (Some 0)], Inr (VText ''zero'' (Some 1)),
                ?st0\<lparr>host := 2\<rparr>)"
    by (simp add: pending_state_def show_n_def patch.simps and_then_def return_def
        hostCreateText_def hostInsert_def counting_host_def)
  have facts: "0 < length (instances pending_state)"
    "\<not> i_isMounted (instances pending_state ! 0)"
    "i_render (instances pending_state ! 0) = Some show_n"
    by (simp_all add: pending_state_def)
  note result = first_effect_run_mounts
    [where i = 0 and st = pending_state and r = show_n, OF facts run]
  from result show ?thesis
    by (simp add: pending_state_def)
qed

lemma patch_old_component:
  "patch opts fuel (OVNode v) (VComp c ps cs e ci) container st =
     updateComponent opts fuel (OVNode v) (VComp c ps cs e ci) st"
  by (simp add: patch.simps processComponent.simps)

text \<open>
  C6. Patching a component node against the node of a mounted instance: the instance of
  the old node is attached to the new node, the new node becomes the instance's pending
  node and the instance's update runs. That run gives the pending node the host node of the
  node tracked so far and the instance, makes it the tracked node, clears the pending node
  and merges the new props into the instance's props (\<open>inst1\<close>); it renders with these
  props, asks the host for the parent of the old subtree's host node, and patches the old
  subtree against the new one into that parent. When this patch returns, the host calls of
  the whole are the \<open>parentNode\<close> query followed by the calls of this patch, and the instance
  ends up holding the patched subtree, its tracked node carrying the subtree's host node.
\<close>

theorem mounted_component_patch:
  assumes i: "i < length (instances st)"
    and inst: "instances st ! i = inst"
    and is_mounted: "i_isMounted inst"
    and render_fn: "i_render inst = Some r"
    and prev: "i_subTree inst = Some prevTree"
    and inst1:
      "inst1 = updateProps
                 (inst\<lparr>i_vnode := VComp c ps cs (el_of (i_vnode inst)) (Some i), i_next := None\<rparr>) ps"
    and repatch:
      "patch opts fuel (OVNode prevTree) (normalizeVNode (r (env st) (i_props inst1)))
         (parentNode opts (el_of prevTree) (host st))
         (st\<lparr>instances := (instances st)[i := inst1
            \<lparr>i_subTree := Some (normalizeVNode (r (env st) (i_props inst1)))\<rparr>]\<rparr>)
       = (calls, Inr nextTree, st1)"
  shows "fst (patch opts (Suc fuel) (OVNode (VComp c0 ps0 cs0 e0 (Some i))) (VComp c ps cs e ci)
                container st)
           = ParentNode (el_of prevTree) # calls
         \<and> snd (snd (patch opts (Suc fuel) (OVNode (VComp c0 ps0 cs0 e0 (Some i)))
                        (VComp c ps cs e ci) container st))
           = st1\<lparr>instances := (instances st1)[i := (instances st1 ! i)
               \<lparr>i_subTree := Some nextTree,
                i_vnode := set_el (el_of nextTree) (i_vnode (instances st1 ! i))\<rparr>]\<rparr>
         \<and> (\<exists>v. fst (snd (patch opts (Suc fuel) (OVNode (VComp c0 ps0 cs0 e0 (Some i)))
                        (VComp c ps cs e ci) container st)) = Inr v)"
proof -
  have "length (instances st) \<le> length (instances st1)"
    using patch_at_least_instances [OF repatch] by simp
  with i have i1: "i < length (instances st1)" by simp
  show ?thesis
    unfolding patch_old_component
    using i inst is_mounted render_fn prev inst1 repatch i1
    by (simp add: updateComponent.simps
        componentUpdateFn.simps get_instance_def update_instance_def hostParentNode_def
        updateProps_def Let_def and_then_def return_def)
qed

theorem mounted_component_patch_witness:
  "fst (patch counting_host (Suc 0) (OVNode (VComp 0 (Some [(''n'', Num 0)]) [] (Some 1) (Some 0)))
          (VComp 0 (Some [(''n'', Num 1)]) [] None None) None mounted_state)
     = [ParentNode (Some 1), SetText (Some 1) ''one'']
   \<and> i_props (instances (snd (snd (patch counting_host (Suc 0)
          (OVNode (VComp 0 (Some [(''n'', Num 0)]) [] (Some 1) (Some 0)))
          (VComp 0 (Some [(''n'', Num 1)]) [] None None) None mounted_state))) ! 0)
     = [(''n'', Num 1)]"
proof -
  define inst where "inst = instances mounted_state ! 0"
  define inst1 where "inst1 = updateProps
     (inst\<lparr>i_vnode := VComp 0 (Some [(''n'', Num 1)]) [] (el_of (i_vnode inst)) (Some 0),
          i_next := None\<rparr>) (Some [(''n'', Num 1)])"
  define st0 where "st0 = mounted_state\<lparr>instances := (instances mounted_state)
      [0 := inst1\<lparr>i_subTree := Some (normalizeVNode (show_n (env mounted_state) (i_props inst1)))\<rparr>]\<rparr>"
  have props1: "i_props inst1 = [(''n'', Num 1)]"
    by (simp add: inst1_def inst_def updateProps_def mounted_state_def)
  have run: "patch counting_host 0 (OVNode (VText ''zero'' (Some 1)))
               (normalizeVNode (show_n (env mounted_state) (i_props inst1)))
               (parentNode counting_host (el_of (VText ''zero'' (Some 1))) (host mounted_state))
               st0
             = ([SetText (Some 1) ''one''], Inr (VText ''one'' (Some 1)), st0)"
    by (simp add: props1 show_n_def patch.simps and_then_def return_def hostSetText_def
        counting_host_def)
  have facts: "0 < length (instances mounted_state)" "instances mounted_state ! 0 = inst"
    "i_isMounted inst" "i_render inst = Some show_n"
    "i_subTree inst = Some (VText ''zero'' (Some 1))"
    by (simp_all add: inst_def mounted_state_def)
  note result = mounted_component_patch [OF facts inst1_def run [unfolded st0_def],
      folded st0_def, of 0 "Some [(''n'', Num 0)]" "[]" "Some 1" None None None]
  have "i_props (instances st0 ! 0) = [(''n'', Num 1)]"
    by (simp add: st0_def props1 mounted_state_def)
  with result show ?thesis
    by (simp add: st0_def mounted_state_def)
qed

text \<open>
  C7. Mounting a component whose definition has no \<open>setup\<close> fails: the instance is created
  and stored with no render function, the first run of its effect calls the missing
  function, and the \<open>TypeError\<close> comes out of \<open>patch\<close> and reaches the caller of the root
  \<open>render\<close>, with no host call made and however much fuel there is.
\<close>

theorem mount_without_setup_fails:
  assumes "setup_fn (components st c) = None"
  shows "patch opts fuel ONull (VComp c ps cs e ci) container st =
           ([], Inl TypeError,
            st\<lparr>instances := instances st @
              [\<lparr>i_vnode = VComp c ps cs e (Some (length (instances st))),
                i_next = None, i_props = prop_list ps, i_render = None, i_subTree = None,
                i_isMounted = False, i_container = container\<rparr>]\<rparr>)
         \<and> fst (render opts fuel c container st) = []
         \<and> fst (snd (render opts fuel c container st)) = Inl TypeError"
  using assms
  by (cases ps)
     (simp_all add: render_def createVNode_def patch.simps processComponent.simps
      mountComponent.simps setupRenderEffect.simps componentUpdateFn.simps
      createComponentInstance_def initProps_def prop_list_def
      get_instance_def update_instance_def and_then_def return_def throw_def)

theorem mount_without_setup_fails_witness:
  "setup_fn (components empty_state 0) = None
   \<and> fst (render counting_host 0 0 (Some 0) empty_state) = []
   \<and> fst (snd (render counting_host 0 0 (Some 0) empty_state)) = Inl TypeError"
proof -
  have none: "setup_fn (components empty_state 0) = None"
    by (simp add: empty_state_def)
  from none mount_without_setup_fails [OF none, of counting_host 0 None "[]" None None "Some 0"]
  show ?thesis by simp
qed

text \<open>
  The exception of such a mount goes through the mount of an enclosing element: the element
  is created, the child's mount throws, and the element is neither given its props nor
  inserted.
\<close>

lemma element_mount_passes_failure_on:
  "patch counting_host 5 ONull
     (VElem ''div'' (Some [(''id'', Str ''app'')]) [Node (VComp 0 None [] None None)] None)
     (Some 0) empty_state
   = ([CreateElement (Tag ''div'')], Inl TypeError,
      empty_state\<lparr>host := 2,
        instances := [\<lparr>i_vnode = VComp 0 None [] None (Some 0), i_next = None, i_props = [],
          i_render = None, i_subTree = None, i_isMounted = False,
          i_container = Some 1\<rparr>]\<rparr>)"
  by (simp add: patch.simps processElement.simps mountElement.simps processComponent.simps
      mountComponent.simps setupRenderEffect.simps componentUpdateFn.simps
      createComponentInstance_def initProps_def get_instance_def update_instance_def
      hostCreateElement_def counting_host_def and_then_def return_def throw_def
      empty_state_def)

text \<open>
  The spec's end-to-end scenario for the later renderer: rendering a root component whose
  render function returns the \<open>div\<close> with \<open>id\<close> and one text child creates the element,
  creates the text node and inserts it into the element, applies \<open>id\<close>, and inserts the
  element into the container.
\<close>

lemma render_mounts_root_component:
  "fst (render counting_host (Suc 0) 0 (Some 0) app_state)
     = [CreateElement (Tag ''div''), CreateText ''count: 0'', Insert (Some 2) (Some 1),
        PatchProp (Some 1) ''id'' (Str ''app''), Insert (Some 1) (Some 0)]"
  by (simp add: render_def createVNode_def patch.simps processComponent.simps
      processElement.simps mountElement.simps
      mountComponent.simps setupRenderEffect.simps componentUpdateFn.simps
      createComponentInstance_def initProps_def count_div_def app_state_def
      get_instance_def update_instance_def and_then_def return_def throw_def
      hostCreateElement_def hostCreateText_def hostInsert_def hostPatchProp_def
      counting_host_def)

end
